theory Spec2Isabelle
  imports Complex_Main
begin

section \<open>StitchPix front end: the two authoring variants\<close>

text \<open>
  The repository holds two versions of the same React component: \<^verbatim>\<open>src/App.js\<close>, whose
  header comment calls it "Option A", and a second file whose header calls it "Option B".
  Where the two differ (message texts, the model registry, how the selected model is
  resolved) the definitions below take the variant as a parameter.
\<close>

datatype variant = OptionA | OptionB

subsection \<open>Results and promises\<close>

type_synonym rect = "int \<times> int \<times> int \<times> int"

text \<open>
  The commands that build the current path of a 2D context. Both branches of the
  source's clip construction (\<^verbatim>\<open>ctx.roundRect\<close> when the browser has it, four
  \<^verbatim>\<open>arcTo\<close> calls otherwise) are kept as they are written.
\<close>

datatype path_cmd =
    MoveTo int int
  | ArcTo int int int int int
  | RoundRect int int int int int
  | ClosePath

type_synonym path = "path_cmd list"

text \<open>
  One \<^verbatim>\<open>drawImage\<close> call as it reaches the bitmap: the image drawn (by its \<^verbatim>\<open>src\<close>),
  the source rectangle (\<open>None\<close> for the forms that draw the whole image), the destination
  rectangle, and the clipping paths in force when it was issued (the empty list is the
  unclipped canvas).
\<close>

datatype draw_op = DrawImage string "rect option" rect "path list"

fun op_clip :: "draw_op \<Rightarrow> path list" where
  "op_clip (DrawImage img sr dr cl) = cl"

text \<open>
  A small JSON value type for what \<^verbatim>\<open>res.json()\<close> yields; a missing property
  (\<^verbatim>\<open>undefined\<close>) is \<open>None\<close> of \<open>json option\<close>.
\<close>

datatype json =
    JNull
  | JBool bool
  | JNum int
  | JStr string
  | JArr "json list"
  | JObj "(string \<times> json) list"

text \<open>
  The \<^verbatim>\<open>url\<close> of a result: a string the caller passed in (an uploaded data URL), the
  PNG encoding of a canvas (\<^verbatim>\<open>canvas.toDataURL("image/png")\<close>, represented by the
  bitmap it losslessly encodes: width, height and the draw calls that painted it), or a
  value taken from a provider's JSON response.
\<close>

datatype image_url =
    Given string
  | PngOf nat nat "draw_op list"
  | FromJson json

record image_result =
  r_id :: nat
  url :: image_url
  quality :: string
  source :: string

datatype 'a promise = Resolved 'a | Rejected string

subsection \<open>The browser as the component sees it\<close>

text \<open>
  \<open>decode\<close> is the outcome of assigning a string to \<^verbatim>\<open>Image.src\<close>: \<open>Some (w, h)\<close> when
  the \<^verbatim>\<open>load\<close> event fires with the decoded size, \<open>None\<close> when the \<^verbatim>\<open>error\<close> event
  fires. \<open>has_roundRect\<close> is \<^verbatim>\<open>typeof ctx.roundRect === "function"\<close>.
  \<open>crop_draw_throws\<close> says whether the nine-argument \<^verbatim>\<open>drawImage\<close> (the one inside the
  source's \<^verbatim>\<open>try\<close>) throws for a given image size and source rectangle. The other canvas
  calls of the routine do not throw on a loaded image and a context obtained from a fresh
  canvas, which is how the source uses them (none of them is guarded there).
\<close>

datatype blob = Blob string string

datatype req_body =
    FormData "(string \<times> blob \<times> string) list"
  | JsonBody json

datatype request = Request string "(string \<times> string) list" req_body

text \<open>
  A response as the source reads it: \<^verbatim>\<open>res.ok\<close>, \<^verbatim>\<open>res.status\<close> and the outcome of
  \<^verbatim>\<open>res.json()\<close> (\<open>Inl\<close> the message of the error it rejects with).
\<close>

record response =
  res_ok :: bool
  res_status :: nat
  res_json :: "string + json"

record upload_file =
  f_type :: string
  f_size :: nat

text \<open>
  Further fields: \<open>fetch\<close> is one network round trip (\<open>Inl\<close> the message of the error a
  failed request rejects with); \<open>atob\<close> decodes base64 (\<open>None\<close> when it throws);
  \<open>readAsDataURL\<close> is the outcome of a \<^verbatim>\<open>FileReader\<close> read (\<open>None\<close> when the
  \<^verbatim>\<open>error\<close> event fires); \<open>env_backend\<close> is \<^verbatim>\<open>process.env.REACT_APP_STITCHPIX_BACKEND\<close>.
\<close>

record browser =
  decode :: "string \<Rightarrow> (nat \<times> nat) option"
  has_roundRect :: bool
  crop_draw_throws :: "nat \<times> nat \<Rightarrow> rect \<Rightarrow> bool"
  fetch :: "request \<Rightarrow> string + response"
  atob :: "string \<Rightarrow> string option"
  readAsDataURL :: "upload_file \<Rightarrow> string option"
  env_backend :: "string option"

text \<open>
  What the component does to the outside world, in order: network requests, file reads,
  and runs of the canvas merge.
\<close>

datatype effect = Fetch request | ReadFile upload_file | Compose string string

subsection \<open>Canvas and 2D context\<close>

record canvas =
  cv_width :: nat
  cv_height :: nat
  painted :: "draw_op list"
  cur_path :: path
  clip_paths :: "path list"
  saved :: "path list list"

definition createElement_canvas :: canvas where
  "createElement_canvas =
     \<lparr>cv_width = 300, cv_height = 150, painted = [], cur_path = [], clip_paths = [], saved = []\<rparr>"

text \<open>Assigning \<^verbatim>\<open>canvas.width\<close> or \<^verbatim>\<open>canvas.height\<close> clears the bitmap and resets the context.\<close>

definition set_width :: "nat \<Rightarrow> canvas \<Rightarrow> canvas" where
  "set_width w c = c\<lparr>cv_width := w, painted := [], cur_path := [], clip_paths := [], saved := []\<rparr>"

definition set_height :: "nat \<Rightarrow> canvas \<Rightarrow> canvas" where
  "set_height h c = c\<lparr>cv_height := h, painted := [], cur_path := [], clip_paths := [], saved := []\<rparr>"

definition drawImage :: "string \<Rightarrow> rect option \<Rightarrow> rect \<Rightarrow> canvas \<Rightarrow> canvas" where
  "drawImage img sr dr c = c\<lparr>painted := painted c @ [DrawImage img sr dr (clip_paths c)]\<rparr>"

definition save :: "canvas \<Rightarrow> canvas" where
  "save c = c\<lparr>saved := clip_paths c # saved c\<rparr>"

definition restore :: "canvas \<Rightarrow> canvas" where
  "restore c = (case saved c of [] \<Rightarrow> c | cl # rest \<Rightarrow> c\<lparr>clip_paths := cl, saved := rest\<rparr>)"

definition beginPath :: "canvas \<Rightarrow> canvas" where
  "beginPath c = c\<lparr>cur_path := []\<rparr>"

definition add_path :: "path_cmd \<Rightarrow> canvas \<Rightarrow> canvas" where
  "add_path p c = c\<lparr>cur_path := cur_path c @ [p]\<rparr>"

definition clip :: "canvas \<Rightarrow> canvas" where
  "clip c = c\<lparr>clip_paths := clip_paths c @ [cur_path c]\<rparr>"

definition toDataURL :: "canvas \<Rightarrow> image_url" where
  "toDataURL c = PngOf (cv_width c) (cv_height c) (painted c)"

subsection \<open>The face placement heuristic\<close>

text \<open>
  \<^verbatim>\<open>Math.round\<close> rounds to the nearest integer, halves upwards. The source multiplies
  integer pixel sizes by the decimal constants 0.25, 1.2, 0.08, 0.1, 0.5 and 0.4; the
  model computes with the exact rationals. On pixel sizes the double-precision products
  round to the same integers: the products by 0.25 and 0.5 are exact, the constants 0.1
  and 0.4 are stored slightly above their decimal value so a product that is a half in
  exact arithmetic is not rounded down, and the products by 1.2 and 0.08 are never
  closer than 0.02 to a half.
\<close>

definition Math_round :: "rat \<Rightarrow> int" where
  "Math_round x = \<lfloor>x + 1 / 2\<rfloor>"

definition faceWidth :: "nat \<Rightarrow> int" where
  "faceWidth cw = Math_round (of_nat cw * (25 / 100))"

definition faceHeight :: "nat \<Rightarrow> int" where
  "faceHeight cw = Math_round (of_int (faceWidth cw) * (12 / 10))"

definition faceX :: "nat \<Rightarrow> int" where
  "faceX cw = Math_round ((of_nat cw - of_int (faceWidth cw)) / 2)"

definition faceY :: "nat \<Rightarrow> int" where
  "faceY ch = Math_round (of_nat ch * (8 / 100))"

definition uX :: "nat \<Rightarrow> int" where
  "uX uw = Math_round (of_nat uw * (25 / 100))"

definition uY :: "nat \<Rightarrow> int" where
  "uY uh = Math_round (of_nat uh * (1 / 10))"

definition uW :: "nat \<Rightarrow> int" where
  "uW uw = Math_round (of_nat uw * (5 / 10))"

definition uH :: "nat \<Rightarrow> int" where
  "uH uh = Math_round (of_nat uh * (4 / 10))"

definition face_rect :: "nat \<Rightarrow> nat \<Rightarrow> rect" where
  "face_rect cw ch = (faceX cw, faceY ch, faceWidth cw, faceHeight cw)"

definition crop_rect :: "nat \<Rightarrow> nat \<Rightarrow> rect" where
  "crop_rect uw uh = (uX uw, uY uh, uW uw, uH uh)"

text \<open>The clip construction: \<^verbatim>\<open>ctx.roundRect(..., 36)\<close>, or the four-arc path with \<^verbatim>\<open>r = 36\<close>.\<close>

definition clip_face :: "bool \<Rightarrow> rect \<Rightarrow> canvas \<Rightarrow> canvas" where
  "clip_face rr f c =
     (case f of (fx, fy, fw, fh) \<Rightarrow>
        if rr then clip (add_path (RoundRect fx fy fw fh 36) (beginPath c))
        else
          (let r = 36 in
           clip (add_path ClosePath
             (add_path (ArcTo fx fy (fx + fw) fy r)
             (add_path (ArcTo fx (fy + fh) fx fy r)
             (add_path (ArcTo (fx + fw) (fy + fh) fx (fy + fh) r)
             (add_path (ArcTo (fx + fw) fy (fx + fw) (fy + fh) r)
             (add_path (MoveTo (fx + r) fy)
             (beginPath c)))))))))"

subsection \<open>The canvas merge\<close>

text \<open>
  The body of \<^verbatim>\<open>dressImg.onload\<close>: size the canvas to the dress image, draw the dress,
  clip, draw the crop of the user image (or, when that throws, the whole user image into
  the same rectangle, with the clip still in force: \<^verbatim>\<open>ctx.restore()\<close> comes after), and
  encode.
\<close>

definition dressImg_onload ::
  "browser \<Rightarrow> string \<Rightarrow> nat \<times> nat \<Rightarrow> string \<Rightarrow> nat \<times> nat \<Rightarrow> canvas" where
  "dressImg_onload env userPhotoData usize dressPhotoData dsize =
     (let c0 = set_height (snd dsize) (set_width (fst dsize) createElement_canvas);
          c1 = drawImage dressPhotoData None (0, 0, int (cv_width c0), int (cv_height c0)) c0;
          f = face_rect (cv_width c1) (cv_height c1);
          u = crop_rect (fst usize) (snd usize);
          c2 = clip_face (has_roundRect env) f (save c1);
          c3 = (if crop_draw_throws env usize u
                then drawImage userPhotoData None f c2
                else drawImage userPhotoData (Some u) f c2)
      in restore c3)"

definition createMergedImages :: "browser \<Rightarrow> string \<Rightarrow> string \<Rightarrow> image_result list promise" where
  "createMergedImages env userPhotoData dressPhotoData =
     (case decode env userPhotoData of
        None \<Rightarrow>
          Resolved [\<lparr>r_id = 1, url = Given dressPhotoData, quality = ''Original'', source = ''original''\<rparr>]
      | Some usize \<Rightarrow>
          (case decode env dressPhotoData of
             None \<Rightarrow>
               Resolved [\<lparr>r_id = 1, url = Given userPhotoData, quality = ''Original'', source = ''original''\<rparr>]
           | Some dsize \<Rightarrow>
               Resolved [\<lparr>r_id = 1,
                          url = toDataURL (dressImg_onload env userPhotoData usize dressPhotoData dsize),
                          quality = ''Canvas Merged'', source = ''canvas''\<rparr>]))"

subsection \<open>JavaScript values\<close>

fun truthy :: "json option \<Rightarrow> bool" where
  "truthy None = False"
| "truthy (Some JNull) = False"
| "truthy (Some (JBool b)) = b"
| "truthy (Some (JNum n)) = (n \<noteq> 0)"
| "truthy (Some (JStr s)) = (s \<noteq> [])"
| "truthy (Some (JArr xs)) = True"
| "truthy (Some (JObj kvs)) = True"

text \<open>\<^verbatim>\<open>a || b\<close> on two possibly undefined values.\<close>

definition or_else :: "json option \<Rightarrow> json option \<Rightarrow> json option" where
  "or_else a b = (if truthy a then a else b)"

text \<open>
  Reading a property: a \<^verbatim>\<open>TypeError\<close> on \<^verbatim>\<open>null\<close>, the member of an object, and
  \<^verbatim>\<open>undefined\<close> on the other values (none of the names the source reads is a built-in
  property). The text of an error the engine raises is the engine's; the model uses a
  fixed one.
\<close>

definition get_prop :: "json \<Rightarrow> string \<Rightarrow> string + json option" where
  "get_prop j k =
     (case j of
        JNull \<Rightarrow> Inl ''Cannot read properties of null''
      | JObj kvs \<Rightarrow> Inr (map_of kvs k)
      | _ \<Rightarrow> Inr None)"

text \<open>A photo or a key held in component state: \<^verbatim>\<open>null\<close> or a string.\<close>

fun truthy_str :: "string option \<Rightarrow> bool" where
  "truthy_str None = False"
| "truthy_str (Some s) = (s \<noteq> [])"

definition digit_char :: "nat \<Rightarrow> char" where
  "digit_char d = char_of (48 + d)"

fun string_of_nat :: "nat \<Rightarrow> string" where
  "string_of_nat n =
     (if n < 10 then [digit_char n] else string_of_nat (n div 10) @ [digit_char (n mod 10)])"

declare string_of_nat.simps [simp del]

text \<open>
  Strings are sequences of bytes holding UTF-8 text (the byte sequences of well-formed
  text, as \<^verbatim>\<open>FileReader\<close>, form inputs and the source files give them). JavaScript's
  \<^verbatim>\<open>\s\<close> and \<^verbatim>\<open>trim()\<close> work on characters, so a string is first cut into its
  characters: the first byte of a character tells how many bytes it has.
\<close>

definition utf8_len :: "char \<Rightarrow> nat" where
  "utf8_len c =
     (if (of_char c :: nat) < 0xC0 then 1
      else if (of_char c :: nat) < 0xE0 then 2
      else if (of_char c :: nat) < 0xF0 then 3
      else 4)"

fun code_points :: "string \<Rightarrow> string list" where
  "code_points [] = []"
| "code_points (c # cs) =
     (c # take (utf8_len c - 1) cs) # code_points (drop (utf8_len c - 1) cs)"

text \<open>
  The characters that \<^verbatim>\<open>\s\<close> matches and \<^verbatim>\<open>trim()\<close> strips (ECMAScript's WhiteSpace and
  LineTerminator), each in its UTF-8 encoding: U+0009 to U+000D, U+0020, U+00A0, U+1680,
  U+2000 to U+200A, U+2028, U+2029, U+202F, U+205F, U+3000 and U+FEFF.
\<close>

definition white_space :: "string list" where
  "white_space =
     [[CHR 0x09], [CHR 0x0A], [CHR 0x0B], [CHR 0x0C], [CHR 0x0D], [CHR 0x20],
      [CHR 0xC2, CHR 0xA0],
      [CHR 0xE1, CHR 0x9A, CHR 0x80],
      [CHR 0xE2, CHR 0x80, CHR 0x80], [CHR 0xE2, CHR 0x80, CHR 0x81],
      [CHR 0xE2, CHR 0x80, CHR 0x82], [CHR 0xE2, CHR 0x80, CHR 0x83],
      [CHR 0xE2, CHR 0x80, CHR 0x84], [CHR 0xE2, CHR 0x80, CHR 0x85],
      [CHR 0xE2, CHR 0x80, CHR 0x86], [CHR 0xE2, CHR 0x80, CHR 0x87],
      [CHR 0xE2, CHR 0x80, CHR 0x88], [CHR 0xE2, CHR 0x80, CHR 0x89],
      [CHR 0xE2, CHR 0x80, CHR 0x8A],
      [CHR 0xE2, CHR 0x80, CHR 0xA8], [CHR 0xE2, CHR 0x80, CHR 0xA9],
      [CHR 0xE2, CHR 0x80, CHR 0xAF],
      [CHR 0xE2, CHR 0x81, CHR 0x9F],
      [CHR 0xE3, CHR 0x80, CHR 0x80],
      [CHR 0xEF, CHR 0xBB, CHR 0xBF]]"

definition is_space :: "string \<Rightarrow> bool" where
  "is_space cp = (cp \<in> set white_space)"

definition trim :: "string \<Rightarrow> string" where
  "trim s = concat (rev (dropWhile is_space (rev (dropWhile is_space (code_points s)))))"

fun split_on :: "char \<Rightarrow> string \<Rightarrow> string list" where
  "split_on sep [] = [[]]"
| "split_on sep (c # cs) =
     (if c = sep then [] # split_on sep cs
      else (case split_on sep cs of [] \<Rightarrow> [[c]] | p # ps \<Rightarrow> (c # p) # ps))"

fun nth_opt :: "'a list \<Rightarrow> nat \<Rightarrow> 'a option" where
  "nth_opt [] n = None"
| "nth_opt (x # xs) 0 = Some x"
| "nth_opt (x # xs) (Suc n) = nth_opt xs n"

subsection \<open>Validation helpers\<close>

text \<open>
  \<^verbatim>\<open>/^[^\s@]+@[^\s@]+\.[^\s@]+$/\<close>: a non-empty run of characters that are neither
  white space nor \<^verbatim>\<open>@\<close>, one \<^verbatim>\<open>@\<close>, and a second such run holding a dot that is neither
  its first nor its last character.
\<close>

definition plain_char :: "string \<Rightarrow> bool" where
  "plain_char cp = (\<not> is_space cp \<and> cp \<noteq> ''@'')"

definition isValidEmail :: "string \<Rightarrow> bool" where
  "isValidEmail email =
     (let name_part = takeWhile plain_char (code_points email);
          rest = dropWhile plain_char (code_points email)
      in name_part \<noteq> [] \<and>
         (case rest of
            [] \<Rightarrow> False
          | c # host \<Rightarrow> c = ''@'' \<and> list_all plain_char host \<and> ''.'' \<in> set (butlast (tl host))))"

text \<open>The two texts of \<^verbatim>\<open>validateImageFile\<close>, by variant.\<close>

definition msg_not_image :: "variant \<Rightarrow> string" where
  "msg_not_image v =
     (case v of OptionA \<Rightarrow> ''Please upload an image file (jpg, png, etc.)''
              | OptionB \<Rightarrow> ''Upload an image file (jpg/png)'')"

definition msg_too_large :: "variant \<Rightarrow> string" where
  "msg_too_large v =
     (case v of OptionA \<Rightarrow> ''Image too large. Max 6MB.''
              | OptionB \<Rightarrow> ''Image too large (max 6MB)'')"

definition validateImageFile :: "variant \<Rightarrow> upload_file \<Rightarrow> string option" where
  "validateImageFile v f =
     (if take 6 (f_type f) \<noteq> ''image/'' then Some (msg_not_image v)
      else if f_size f > 6 * 1024 * 1024 then Some (msg_too_large v)
      else None)"

subsection \<open>Model registry\<close>

record ai_model =
  m_id :: string
  m_name :: string
  needsApi :: bool
  m_description :: string

definition aiModels_free :: "variant \<Rightarrow> ai_model list" where
  "aiModels_free v =
     (case v of
        OptionA \<Rightarrow>
          [\<lparr>m_id = ''canvas'', m_name = ''Canvas Merge (Free)'', needsApi = False,
            m_description = ''Basic image merging using canvas''\<rparr>,
           \<lparr>m_id = ''nanobanana'', m_name = ''Nano Banana API'', needsApi = True,
            m_description = ''Advanced virtual try-on''\<rparr>,
           \<lparr>m_id = ''deepai'', m_name = ''DeepAI Image Editor'', needsApi = True,
            m_description = ''Image editing/generation''\<rparr>,
           \<lparr>m_id = ''huggingface'', m_name = ''Hugging Face Inference API'', needsApi = True,
            m_description = ''Open-source ML models''\<rparr>]
      | OptionB \<Rightarrow>
          [\<lparr>m_id = ''canvas'', m_name = ''Canvas Merge (Free)'', needsApi = False,
            m_description = ''Local canvas merging fallback''\<rparr>,
           \<lparr>m_id = ''nanobanana'', m_name = ''NanoBanana'', needsApi = True,
            m_description = ''Virtual try-on API''\<rparr>,
           \<lparr>m_id = ''deepai'', m_name = ''DeepAI'', needsApi = True,
            m_description = ''Image editing API''\<rparr>])"

definition aiModels_paid :: "variant \<Rightarrow> ai_model list" where
  "aiModels_paid v =
     (case v of
        OptionA \<Rightarrow>
          [\<lparr>m_id = ''replicate'', m_name = ''Replicate API'', needsApi = True,
            m_description = ''Run community models''\<rparr>,
           \<lparr>m_id = ''stability'', m_name = ''Stability AI'', needsApi = True,
            m_description = ''Image generation API''\<rparr>]
      | OptionB \<Rightarrow>
          [\<lparr>m_id = ''replicate'', m_name = ''Replicate'', needsApi = True,
            m_description = ''Community models''\<rparr>,
           \<lparr>m_id = ''stability'', m_name = ''Stability AI'', needsApi = True,
            m_description = ''Image generation''\<rparr>])"

definition allModels :: "variant \<Rightarrow> ai_model list" where
  "allModels v = aiModels_free v @ aiModels_paid v"

text \<open>
  Resolving the selected model. Option A: \<^verbatim>\<open>allModels.find((m) => m.id === selectedModel)\<close>,
  which is \<^verbatim>\<open>undefined\<close> for an id that is not in the registry. Option B:
  \<^verbatim>\<open>allModels.find(...) || allModels[0]\<close>.
\<close>

definition currentModelData :: "variant \<Rightarrow> string \<Rightarrow> ai_model option" where
  "currentModelData v selectedModel =
     (case v of
        OptionA \<Rightarrow> find (\<lambda>m. m_id m = selectedModel) (allModels v)
      | OptionB \<Rightarrow>
          (case find (\<lambda>m. m_id m = selectedModel) (allModels v) of
             Some m \<Rightarrow> Some m
           | None \<Rightarrow> nth_opt (allModels v) 0))"

subsection \<open>Remote adapters\<close>

definition base64ToBlob :: "browser \<Rightarrow> string \<Rightarrow> string + blob" where
  "base64ToBlob env base64 =
     (let parts = split_on CHR '','' base64 in
      case nth_opt parts 1 of
        None \<Rightarrow> Inl ''The string to be decoded is not correctly encoded.''
      | Some payload \<Rightarrow>
          (case atob env payload of
             None \<Rightarrow> Inl ''The string to be decoded is not correctly encoded.''
           | Some byteString \<Rightarrow>
               (case nth_opt parts 0 of
                  None \<Rightarrow> Inl ''Cannot read properties of undefined''
                | Some head \<Rightarrow>
                    (case nth_opt (split_on CHR '':'' head) 1 of
                       None \<Rightarrow> Inl ''Cannot read properties of undefined''
                     | Some after_colon \<Rightarrow>
                         (case nth_opt (split_on CHR '';'' after_colon) 0 of
                            None \<Rightarrow> Inl ''Cannot read properties of undefined''
                          | Some mimeString \<Rightarrow> Inr (Blob byteString mimeString))))))"

definition nano_status_failed :: "variant \<Rightarrow> nat \<Rightarrow> string" where
  "nano_status_failed v n =
     (case v of OptionA \<Rightarrow> ''NanoBanana API failed ('' @ string_of_nat n @ '')''
              | OptionB \<Rightarrow> ''NanoBanana failed ('' @ string_of_nat n @ '')'')"

definition nano_no_url :: "variant \<Rightarrow> string" where
  "nano_no_url v =
     (case v of OptionA \<Rightarrow> ''NanoBanana returned no image URL''
              | OptionB \<Rightarrow> ''NanoBanana returned no image'')"

definition nano_quality :: "variant \<Rightarrow> string" where
  "nano_quality v = (case v of OptionA \<Rightarrow> ''AI Enhanced (NanoBanana)'' | OptionB \<Rightarrow> ''NanoBanana'')"

definition deepai_quality :: "variant \<Rightarrow> string" where
  "deepai_quality v = (case v of OptionA \<Rightarrow> ''AI Enhanced (DeepAI)'' | OptionB \<Rightarrow> ''DeepAI'')"

definition nano_request :: "string \<Rightarrow> blob \<Rightarrow> blob \<Rightarrow> request" where
  "nano_request key ub db =
     Request ''https://api.nanobanana.ai/api/try-on''
       [(''Authorization'', ''Bearer '' @ key)]
       (FormData [(''person_image'', ub, ''user.jpg''), (''garment_image'', db, ''dress.jpg'')])"

definition deepai_request :: "string \<Rightarrow> string \<Rightarrow> request" where
  "deepai_request key userPhotoData =
     Request ''https://api.deepai.org/api/image-editor''
       [(''api-key'', key), (''Content-Type'', ''application/json'')]
       (JsonBody (JObj [(''image'', JStr userPhotoData),
                        (''text'', JStr ''merge with dress image and create virtual try-on'')]))"

text \<open>Each adapter returns its promise and the network requests it issued.\<close>

definition nano_parse :: "variant \<Rightarrow> json \<Rightarrow> image_result list promise" where
  "nano_parse v result =
     (case get_prop result ''output_url'' of
        Inl e \<Rightarrow> Rejected e
      | Inr ou \<Rightarrow>
          (case get_prop result ''image_url'' of
             Inl e \<Rightarrow> Rejected e
           | Inr iu \<Rightarrow>
               (case or_else ou iu of
                  None \<Rightarrow> Rejected (nano_no_url v)
                | Some j \<Rightarrow>
                    if truthy (Some j)
                    then Resolved [\<lparr>r_id = 1, url = FromJson j, quality = nano_quality v,
                                    source = ''nanobanana''\<rparr>]
                    else Rejected (nano_no_url v))))"

definition callNanoBanana ::
  "variant \<Rightarrow> browser \<Rightarrow> string \<Rightarrow> string \<Rightarrow> string \<Rightarrow> image_result list promise \<times> effect list" where
  "callNanoBanana v env key userPhotoData dressPhotoData =
     (if key = [] then (Rejected ''NanoBanana requires API key'', [])
      else
        (case base64ToBlob env userPhotoData of
           Inl e \<Rightarrow> (Rejected e, [])
         | Inr ub \<Rightarrow>
             (case base64ToBlob env dressPhotoData of
                Inl e \<Rightarrow> (Rejected e, [])
              | Inr db \<Rightarrow>
                  (case fetch env (nano_request key ub db) of
                     Inl e \<Rightarrow> (Rejected e, [Fetch (nano_request key ub db)])
                   | Inr res \<Rightarrow>
                       if \<not> res_ok res
                       then (Rejected (nano_status_failed v (res_status res)),
                             [Fetch (nano_request key ub db)])
                       else
                         (case res_json res of
                            Inl e \<Rightarrow> (Rejected e, [Fetch (nano_request key ub db)])
                          | Inr result \<Rightarrow>
                              (nano_parse v result, [Fetch (nano_request key ub db)]))))))"

definition deepai_parse :: "variant \<Rightarrow> json \<Rightarrow> image_result list promise" where
  "deepai_parse v data =
     (case get_prop data ''output_url'' of
        Inl e \<Rightarrow> Rejected e
      | Inr None \<Rightarrow> Rejected ''DeepAI returned no image''
      | Inr (Some j) \<Rightarrow>
          if truthy (Some j)
          then Resolved [\<lparr>r_id = 1, url = FromJson j, quality = deepai_quality v, source = ''deepai''\<rparr>]
          else Rejected ''DeepAI returned no image'')"

definition callDeepAI ::
  "variant \<Rightarrow> browser \<Rightarrow> string \<Rightarrow> string \<Rightarrow> image_result list promise \<times> effect list" where
  "callDeepAI v env key userPhotoData =
     (if key = [] then (Rejected ''DeepAI requires API key'', [])
      else
        (case fetch env (deepai_request key userPhotoData) of
           Inl e \<Rightarrow> (Rejected e, [Fetch (deepai_request key userPhotoData)])
         | Inr res \<Rightarrow>
             if \<not> res_ok res
             then (Rejected (''DeepAI failed ('' @ string_of_nat (res_status res) @ '')''),
                   [Fetch (deepai_request key userPhotoData)])
             else
               (case res_json res of
                  Inl e \<Rightarrow> (Rejected e, [Fetch (deepai_request key userPhotoData)])
                | Inr data \<Rightarrow> (deepai_parse v data, [Fetch (deepai_request key userPhotoData)]))))"

subsection \<open>Component state\<close>

datatype page = Login | Upload | Results

record app_state =
  currentPage :: page
  user :: "json option"
  token :: "json option"
  authError :: json
  isLoadingAuth :: bool
  authEmail :: string
  authPassword :: string
  userPhoto :: "string option"
  dressPhoto :: "string option"
  generatedImages :: "image_result list"
  apiKey :: string
  isGenerating :: bool
  isUploadingImage :: bool
  errorMessage :: string
  selectedModel :: string
  mounted :: bool
  localStorage :: "string \<Rightarrow> json option"

subsection \<open>The generate handler\<close>

definition msg_upload_both :: "variant \<Rightarrow> string" where
  "msg_upload_both v =
     (case v of OptionA \<Rightarrow> ''Upload both your photo and the dress model.''
              | OptionB \<Rightarrow> ''Please upload both photos.'')"

definition msg_api_key_required :: "ai_model \<Rightarrow> string" where
  "msg_api_key_required m = ''API key required for '' @ m_name m"

definition msg_no_images :: "variant \<Rightarrow> string" where
  "msg_no_images v =
     (case v of OptionA \<Rightarrow> ''No images returned from model''
              | OptionB \<Rightarrow> ''Model returned no images'')"

text \<open>
  The text appended to the caught error's message, byte for byte as the two files have
  it (Option B has a UTF-8 em dash, Option A the same dash after a wrong re-encoding).
\<close>

definition fallback_suffix :: "variant \<Rightarrow> string" where
  "fallback_suffix v =
     (case v of
        OptionA \<Rightarrow>
          '' '' @ [CHR 0xE2, CHR 0x80, CHR 0x9A, CHR 0xC3, CHR 0x84, CHR 0xC3, CHR 0xAE]
            @ '' falling back to canvas merge...''
      | OptionB \<Rightarrow> '' '' @ [CHR 0xE2, CHR 0x80, CHR 0x94] @ '' falling back to canvas...'')"

definition msg_generation_failed :: "variant \<Rightarrow> string \<Rightarrow> string" where
  "msg_generation_failed v fb =
     (case v of OptionA \<Rightarrow> ''Generation failed: '' @ fb | OptionB \<Rightarrow> ''Generation failed.'')"

text \<open>The three-way dispatch inside the \<^verbatim>\<open>try\<close>.\<close>

definition dispatch ::
  "variant \<Rightarrow> browser \<Rightarrow> string \<Rightarrow> string \<Rightarrow> string \<Rightarrow> string \<Rightarrow> image_result list promise \<times> effect list" where
  "dispatch v env sel key u d =
     (if sel = ''nanobanana'' then callNanoBanana v env key u d
      else if sel = ''deepai'' then callDeepAI v env key u
      else (createMergedImages env u d, [Compose u d]))"

text \<open>The \<^verbatim>\<open>catch\<close> block: the advisory message, then one run of the canvas merge.\<close>

definition generate_catch ::
  "variant \<Rightarrow> browser \<Rightarrow> string \<Rightarrow> string \<Rightarrow> string \<Rightarrow> app_state \<Rightarrow> app_state \<times> effect list" where
  "generate_catch v env msg u d s =
     (let s1 = s\<lparr>errorMessage := msg @ fallback_suffix v\<rparr> in
      case createMergedImages env u d of
        Resolved fallback \<Rightarrow> (s1\<lparr>generatedImages := fallback, currentPage := Results\<rparr>, [Compose u d])
      | Rejected fb \<Rightarrow> (s1\<lparr>errorMessage := msg_generation_failed v fb\<rparr>, [Compose u d]))"

definition generate_finally :: "app_state \<Rightarrow> app_state" where
  "generate_finally s = (if mounted s then s\<lparr>isGenerating := False\<rparr> else s)"

text \<open>From \<^verbatim>\<open>setIsGenerating(true)\<close> to the end of the \<^verbatim>\<open>finally\<close>.\<close>

definition generate_run ::
  "variant \<Rightarrow> browser \<Rightarrow> string \<Rightarrow> string \<Rightarrow> app_state \<Rightarrow> app_state \<times> effect list" where
  "generate_run v env u d s =
     (let s1 = s\<lparr>isGenerating := True\<rparr> in
      case dispatch v env (selectedModel s1) (apiKey s1) u d of
        (Resolved result, fx) \<Rightarrow>
          if result = []
          then (case generate_catch v env (msg_no_images v) u d s1 of
                  (s2, fx2) \<Rightarrow> (generate_finally s2, fx @ fx2))
          else (generate_finally (s1\<lparr>generatedImages := result, currentPage := Results\<rparr>), fx)
      | (Rejected msg, fx) \<Rightarrow>
          (case generate_catch v env msg u d s1 of
             (s2, fx2) \<Rightarrow> (generate_finally s2, fx @ fx2)))"

definition handleGenerate :: "variant \<Rightarrow> browser \<Rightarrow> app_state \<Rightarrow> app_state \<times> effect list" where
  "handleGenerate v env s =
     (let s1 = s\<lparr>errorMessage := []\<rparr> in
      if \<not> truthy_str (userPhoto s1) \<or> \<not> truthy_str (dressPhoto s1)
      then (s1\<lparr>errorMessage := msg_upload_both v\<rparr>, [])
      else
        (case (userPhoto s1, dressPhoto s1) of
           (Some u, Some d) \<Rightarrow>
             (case currentModelData v (selectedModel s1) of
                None \<Rightarrow> generate_run v env u d s1
              | Some m \<Rightarrow>
                  if needsApi m \<and> apiKey s1 = []
                  then (s1\<lparr>errorMessage := msg_api_key_required m\<rparr>, [])
                  else generate_run v env u d s1)
         | _ \<Rightarrow> (s1\<lparr>errorMessage := msg_upload_both v\<rparr>, [])))"

subsection \<open>Login\<close>

definition default_backend :: string where
  "default_backend = ''https://stitchpix-backend-1.onrender.com''"

definition STITCHPIX_BACKEND :: "browser \<Rightarrow> string" where
  "STITCHPIX_BACKEND env =
     (if truthy_str (env_backend env)
      then (case env_backend env of Some b \<Rightarrow> b | None \<Rightarrow> default_backend)
      else default_backend)"

definition msg_enter_email :: "variant \<Rightarrow> string" where
  "msg_enter_email v = (case v of OptionA \<Rightarrow> ''Enter a valid email'' | OptionB \<Rightarrow> ''Enter valid email'')"

definition msg_enter_password :: "variant \<Rightarrow> string" where
  "msg_enter_password v =
     (case v of OptionA \<Rightarrow> ''Please enter your password'' | OptionB \<Rightarrow> ''Enter password'')"

definition msg_login_status :: "variant \<Rightarrow> nat \<Rightarrow> string" where
  "msg_login_status v n =
     (case v of OptionA \<Rightarrow> ''Login failed (status '' @ string_of_nat n @ '')''
              | OptionB \<Rightarrow> ''Login failed ('' @ string_of_nat n @ '')'')"

definition msg_login_caught :: string where
  "msg_login_caught = ''Login failed. Check network or server.''"

definition login_request :: "browser \<Rightarrow> string \<Rightarrow> string \<Rightarrow> request" where
  "login_request env email password =
     Request (STITCHPIX_BACKEND env @ ''/api/auth/login'')
       [(''Content-Type'', ''application/json'')]
       (JsonBody (JObj [(''email'', JStr (trim email)), (''password'', JStr password)]))"

text \<open>\<^verbatim>\<open>data?.message\<close>: \<^verbatim>\<open>undefined\<close> on \<^verbatim>\<open>null\<close> instead of an error.\<close>

definition opt_prop :: "json \<Rightarrow> string \<Rightarrow> json option" where
  "opt_prop j k = (case get_prop j k of Inl e \<Rightarrow> None | Inr r \<Rightarrow> r)"

text \<open>
  The part of the \<^verbatim>\<open>try\<close> after a response with \<^verbatim>\<open>res.ok\<close>; \<open>Inl\<close> when it throws. Values
  written to \<^verbatim>\<open>localStorage\<close> are kept as the values that are serialised.
\<close>

definition login_ok :: "json \<Rightarrow> app_state \<Rightarrow> string + app_state" where
  "login_ok data s =
     (case get_prop data ''token'' of
        Inl e \<Rightarrow> Inl e
      | Inr tok \<Rightarrow>
          (let s1 = (if truthy tok
                     then s\<lparr>localStorage := (localStorage s)(''stitchpix_token'' := tok), token := tok\<rparr>
                     else s)
           in case get_prop data ''user'' of
                Inl e \<Rightarrow> Inl e
              | Inr u \<Rightarrow>
                  (let savedUser = or_else u (Some (JObj [(''email'', JStr (trim (authEmail s1)))]))
                   in Inr (s1\<lparr>localStorage := (localStorage s1)(''stitchpix_user'' := savedUser),
                              user := savedUser, currentPage := Upload,
                              authEmail := [], authPassword := []\<rparr>))))"

definition login_finally :: "app_state \<Rightarrow> app_state" where
  "login_finally s = (if mounted s then s\<lparr>isLoadingAuth := False\<rparr> else s)"

definition handleLogin :: "variant \<Rightarrow> browser \<Rightarrow> app_state \<Rightarrow> app_state \<times> effect list" where
  "handleLogin v env s =
     (let s1 = s\<lparr>authError := JStr []\<rparr> in
      if \<not> isValidEmail (authEmail s1) then (s1\<lparr>authError := JStr (msg_enter_email v)\<rparr>, [])
      else if authPassword s1 = [] then (s1\<lparr>authError := JStr (msg_enter_password v)\<rparr>, [])
      else
        (let s2 = s1\<lparr>isLoadingAuth := True\<rparr>;
             req = login_request env (authEmail s2) (authPassword s2)
         in case fetch env req of
              Inl e \<Rightarrow> (login_finally (s2\<lparr>authError := JStr msg_login_caught\<rparr>), [Fetch req])
            | Inr res \<Rightarrow>
                (let data = (case res_json res of Inl e \<Rightarrow> JObj [] | Inr j \<Rightarrow> j) in
                 if \<not> res_ok res
                 then (login_finally
                         (s2\<lparr>authError :=
                               (case or_else (opt_prop data ''message'')
                                       (Some (JStr (msg_login_status v (res_status res)))) of
                                  Some m \<Rightarrow> m | None \<Rightarrow> JNull)\<rparr>),
                       [Fetch req])
                 else
                   (case login_ok data s2 of
                      Inl e \<Rightarrow> (login_finally (s2\<lparr>authError := JStr msg_login_caught\<rparr>), [Fetch req])
                    | Inr s3 \<Rightarrow> (login_finally s3, [Fetch req])))))"

subsection \<open>Image upload\<close>

definition msg_read_failed :: "variant \<Rightarrow> string" where
  "msg_read_failed v =
     (case v of OptionA \<Rightarrow> ''Failed to read image file.'' | OptionB \<Rightarrow> ''Failed to read file'')"

text \<open>\<^verbatim>\<open>reader.onloadend\<close>, which runs after a successful and after a failed read alike.\<close>

definition reader_onloadend :: "string \<Rightarrow> string option \<Rightarrow> app_state \<Rightarrow> app_state" where
  "reader_onloadend kind res s =
     (if \<not> mounted s then s
      else (if kind = ''user'' then s\<lparr>userPhoto := res\<rparr> else s\<lparr>dressPhoto := res\<rparr>)
             \<lparr>isUploadingImage := False\<rparr>)"

definition reader_onerror :: "variant \<Rightarrow> app_state \<Rightarrow> app_state" where
  "reader_onerror v s = s\<lparr>isUploadingImage := False, errorMessage := msg_read_failed v\<rparr>"

definition handleImageUpload ::
  "variant \<Rightarrow> browser \<Rightarrow> upload_file option \<Rightarrow> string \<Rightarrow> app_state \<Rightarrow> app_state \<times> effect list" where
  "handleImageUpload v env picked kind s =
     (let s1 = s\<lparr>errorMessage := []\<rparr> in
      case picked of
        None \<Rightarrow> (s1, [])
      | Some f \<Rightarrow>
          (case validateImageFile v f of
             Some err \<Rightarrow>
               if err \<noteq> [] then (s1\<lparr>errorMessage := err\<rparr>, [])
               else (case readAsDataURL env f of
                       Some dataUrl \<Rightarrow>
                         (reader_onloadend kind (Some dataUrl) (s1\<lparr>isUploadingImage := True\<rparr>), [ReadFile f])
                     | None \<Rightarrow>
                         (reader_onloadend kind None (reader_onerror v (s1\<lparr>isUploadingImage := True\<rparr>)),
                          [ReadFile f]))
           | None \<Rightarrow>
               (case readAsDataURL env f of
                  Some dataUrl \<Rightarrow>
                    (reader_onloadend kind (Some dataUrl) (s1\<lparr>isUploadingImage := True\<rparr>), [ReadFile f])
                | None \<Rightarrow>
                    (reader_onloadend kind None (reader_onerror v (s1\<lparr>isUploadingImage := True\<rparr>)),
                     [ReadFile f]))))"

subsection \<open>The placement in the specification's words\<close>

text \<open>
  The specification gives the placement as percentages, rounded to integers. In integer
  arithmetic, \<open>p\<close> percent of \<open>n\<close> rounded to the nearest integer (halves upwards) is
  \<open>(2 p n + 100) div 200\<close>; the centred left edge of a box of width \<open>w\<close> in a canvas of
  width \<open>W\<close> is \<open>(W - w) / 2\<close>, rounded the same way.
\<close>

definition spec_percent :: "nat \<Rightarrow> int \<Rightarrow> int" where
  "spec_percent p n = (2 * int p * n + 100) div 200"

definition spec_face_rect :: "int \<Rightarrow> int \<Rightarrow> rect" where
  "spec_face_rect W H =
     (let w = spec_percent 25 W
      in ((W - w + 1) div 2, spec_percent 8 H, w, spec_percent 120 w))"

definition spec_crop_rect :: "int \<Rightarrow> int \<Rightarrow> rect" where
  "spec_crop_rect w h = (spec_percent 25 w, spec_percent 10 h, spec_percent 50 w, spec_percent 40 h)"

text \<open>The rounded-rectangle clip of radius 36 around a rectangle, in either of its two forms.\<close>

definition rounded_clip_36 :: "bool \<Rightarrow> rect \<Rightarrow> path" where
  "rounded_clip_36 rr f =
     (case f of (x, y, w, h) \<Rightarrow>
        if rr then [RoundRect x y w h 36]
        else [MoveTo (x + 36) y, ArcTo (x + w) y (x + w) (y + h) 36,
              ArcTo (x + w) (y + h) x (y + h) 36, ArcTo x (y + h) x y 36,
              ArcTo x y (x + w) y 36, ClosePath])"

definition original_of :: "string \<Rightarrow> image_result" where
  "original_of data = \<lparr>r_id = 1, url = Given data, quality = ''Original'', source = ''original''\<rparr>"

definition fetches :: "effect list \<Rightarrow> effect list" where
  "fetches fx = filter (\<lambda>e. case e of Fetch r \<Rightarrow> True | _ \<Rightarrow> False) fx"

definition composes :: "effect list \<Rightarrow> effect list" where
  "composes fx = filter (\<lambda>e. case e of Compose u d \<Rightarrow> True | _ \<Rightarrow> False) fx"

subsection \<open>Example inputs\<close>

text \<open>
  Four uploaded data URLs: an 800 x 600 subject, a 1000 x 1500 garment (the sizes of the
  specification's scenario), a subject one pixel high, and a file that has an image
  content type but does not decode.
\<close>

definition subject_url :: string where
  "subject_url = ''data:image/png;base64,c3ViamVjdA==''"

definition garment_url :: string where
  "garment_url = ''data:image/jpeg;base64,Z2FybWVudA==''"

definition thin_url :: string where
  "thin_url = ''data:image/png;base64,dGhpbg==''"

definition corrupt_url :: string where
  "corrupt_url = ''data:image/png;base64,bm90IGFuIGltYWdl''"

definition truncated_url :: string where
  "truncated_url = ''data:image/jpeg;base64,''"

definition example_decode :: "string \<Rightarrow> (nat \<times> nat) option" where
  "example_decode s =
     (if s = subject_url then Some (800, 600)
      else if s = garment_url then Some (1000, 1500)
      else if s = thin_url then Some (800, 1)
      else None)"

definition example_atob :: "string \<Rightarrow> string option" where
  "example_atob s =
     (if s = ''c3ViamVjdA=='' then Some ''subject''
      else if s = ''Z2FybWVudA=='' then Some ''garment''
      else if s = ''dGhpbg=='' then Some ''thin''
      else if s = ''bm90IGFuIGltYWdl'' then Some ''not an image''
      else None)"

definition example_read :: "upload_file \<Rightarrow> string option" where
  "example_read f = (if f_size f = 7 then Some subject_url else None)"

text \<open>A provider that answers every request with status 503.\<close>

definition failing_fetch :: "request \<Rightarrow> string + response" where
  "failing_fetch r = Inr \<lparr>res_ok = False, res_status = 503, res_json = Inl ''Unexpected end of JSON input''\<rparr>"

text \<open>A current browser, where the cropped draw never throws.\<close>

definition modern_browser :: browser where
  "modern_browser =
     \<lparr>decode = example_decode, has_roundRect = True, crop_draw_throws = (\<lambda>dims r. False),
      fetch = failing_fetch, atob = example_atob, readAsDataURL = example_read,
      env_backend = None\<rparr>"

text \<open>
  An older browser, without \<^verbatim>\<open>roundRect\<close>, whose \<^verbatim>\<open>drawImage\<close> throws on a source
  rectangle of width or height zero.
\<close>

definition empty_source :: "nat \<times> nat \<Rightarrow> rect \<Rightarrow> bool" where
  "empty_source dims r = (case r of (x, y, w, h) \<Rightarrow> w = 0 \<or> h = 0)"

definition legacy_browser :: browser where
  "legacy_browser =
     \<lparr>decode = example_decode, has_roundRect = False, crop_draw_throws = empty_source,
      fetch = failing_fetch, atob = example_atob, readAsDataURL = example_read,
      env_backend = None\<rparr>"

definition example_state :: app_state where
  "example_state =
     \<lparr>currentPage = Upload, user = Some (JObj [(''email'', JStr ''a@b.com'')]), token = None,
      authError = JStr [], isLoadingAuth = False, authEmail = ''a@b.com'',
      authPassword = ''short'', userPhoto = Some subject_url, dressPhoto = Some garment_url,
      generatedImages = [], apiKey = ''key-123'', isGenerating = False,
      isUploadingImage = False, errorMessage = [], selectedModel = ''nanobanana'',
      mounted = True, localStorage = (\<lambda>k. None)\<rparr>"

text \<open>An address with a no-break space (U+00A0) before the \<^verbatim>\<open>@\<close>.\<close>

definition nbsp_email :: string where
  "nbsp_email = ''a'' @ [CHR 0xC2, CHR 0xA0] @ ''@b.com''"

definition text_file :: upload_file where
  "text_file = \<lparr>f_type = ''text/plain'', f_size = 7\<rparr>"

definition huge_image :: upload_file where
  "huge_image = \<lparr>f_type = ''image/png'', f_size = 6291457\<rparr>"

definition small_image :: upload_file where
  "small_image = \<lparr>f_type = ''image/png'', f_size = 7\<rparr>"

section \<open>Rounding\<close>

lemma Math_round_frac: "0 < b \<Longrightarrow> Math_round (of_int a / of_int b) = (2 * a + b) div (2 * b)"
proof -
  assume b: "0 < b"
  have "(of_int a / of_int b :: rat) + 1 / 2 = of_int (2 * a + b) / of_int (2 * b)"
    using b by (simp add: field_simps)
  then show ?thesis
    unfolding Math_round_def by (simp only: floor_divide_of_int_eq)
qed

lemma Math_round_percent: "Math_round (of_int n * (of_nat p / 100)) = spec_percent p n"
proof -
  have "(of_int n * (of_nat p / 100) :: rat) = of_int (int p * n) / of_int 100"
    by simp
  moreover have "Math_round (of_int (int p * n) / of_int 100) = (2 * (int p * n) + 100) div (2 * 100)"
    by (rule Math_round_frac) simp
  ultimately have "Math_round (of_int n * (of_nat p / 100)) = (2 * (int p * n) + 100) div (2 * 100)"
    by (simp only:)
  then show ?thesis by (simp add: spec_percent_def mult.assoc)
qed

lemma faceWidth_eq: "faceWidth cw = spec_percent 25 (int cw)"
  using Math_round_percent [of "int cw" 25] by (simp add: faceWidth_def)

lemma faceHeight_eq: "faceHeight cw = spec_percent 120 (faceWidth cw)"
  using Math_round_percent [of "faceWidth cw" 120] by (simp add: faceHeight_def)

lemma faceY_eq: "faceY ch = spec_percent 8 (int ch)"
  using Math_round_percent [of "int ch" 8] by (simp add: faceY_def)

lemma faceX_eq: "faceX cw = (int cw - faceWidth cw + 1) div 2"
  using Math_round_frac [of 2 "int cw - faceWidth cw"] by (simp add: faceX_def)

lemma uX_eq: "uX w = spec_percent 25 (int w)"
  using Math_round_percent [of "int w" 25] by (simp add: uX_def)

lemma uY_eq: "uY h = spec_percent 10 (int h)"
  using Math_round_percent [of "int h" 10] by (simp add: uY_def)

lemma uW_eq: "uW w = spec_percent 50 (int w)"
  using Math_round_percent [of "int w" 50] by (simp add: uW_def)

lemma uH_eq: "uH h = spec_percent 40 (int h)"
  using Math_round_percent [of "int h" 40] by (simp add: uH_def)

lemma face_rect_spec: "face_rect cw ch = spec_face_rect (int cw) (int ch)"
  by (simp add: face_rect_def spec_face_rect_def Let_def faceX_eq faceY_eq faceHeight_eq faceWidth_eq)

lemma crop_rect_spec: "crop_rect uw uh = spec_crop_rect (int uw) (int uh)"
  by (simp add: crop_rect_def spec_crop_rect_def uX_eq uY_eq uW_eq uH_eq)

section \<open>The drawing\<close>

lemma clip_face_paths:
  "clip_paths (clip_face rr f (save c)) = clip_paths c @ [rounded_clip_36 rr f]"
  by (cases f) (simp add: clip_face_def rounded_clip_36_def clip_def add_path_def beginPath_def
      save_def Let_def)

lemma clip_face_painted: "painted (clip_face rr f (save c)) = painted c"
  by (cases f) (simp add: clip_face_def clip_def add_path_def beginPath_def save_def Let_def)

lemma clip_face_size:
  "cv_width (clip_face rr f (save c)) = cv_width c"
  "cv_height (clip_face rr f (save c)) = cv_height c"
  by (cases f; simp add: clip_face_def clip_def add_path_def beginPath_def save_def Let_def)+

lemma restore_painted: "painted (restore c) = painted c"
  by (simp add: restore_def split: list.splits)

lemma restore_size: "cv_width (restore c) = cv_width c" "cv_height (restore c) = cv_height c"
  by (simp_all add: restore_def split: list.splits)

lemma onload_size:
  "cv_width (dressImg_onload env u us d ds) = fst ds"
  "cv_height (dressImg_onload env u us d ds) = snd ds"
  by (simp_all add: dressImg_onload_def Let_def restore_size drawImage_def clip_face_size
      set_width_def set_height_def)

lemma onload_painted:
  "painted (dressImg_onload env u (uw, uh) d (dw, dh)) =
     [DrawImage d None (0, 0, int dw, int dh) [],
      DrawImage u (if crop_draw_throws env (uw, uh) (crop_rect uw uh) then None
                   else Some (crop_rect uw uh))
        (face_rect dw dh) [rounded_clip_36 (has_roundRect env) (face_rect dw dh)]]"
  by (simp add: dressImg_onload_def Let_def restore_painted drawImage_def clip_face_painted
      clip_face_paths clip_face_size set_width_def set_height_def createElement_canvas_def)

lemma merged_decoded:
  assumes "decode env u = Some (uw, uh)" and "decode env d = Some (dw, dh)"
  shows "createMergedImages env u d =
     Resolved [\<lparr>r_id = 1,
       url = PngOf dw dh
         [DrawImage d None (0, 0, int dw, int dh) [],
          DrawImage u (if crop_draw_throws env (uw, uh) (crop_rect uw uh) then None
                       else Some (crop_rect uw uh))
            (face_rect dw dh) [rounded_clip_36 (has_roundRect env) (face_rect dw dh)]],
       quality = ''Canvas Merged'', source = ''canvas''\<rparr>]"
  using assms
  by (simp add: createMergedImages_def toDataURL_def onload_size onload_painted)

lemma merged_no_subject:
  "decode env u = None \<Longrightarrow> createMergedImages env u d = Resolved [original_of d]"
  by (simp add: createMergedImages_def original_of_def)

lemma merged_no_garment:
  "decode env u = Some us \<Longrightarrow> decode env d = None \<Longrightarrow>
   createMergedImages env u d = Resolved [original_of u]"
  by (simp add: createMergedImages_def original_of_def)

lemma merged_resolves: "\<exists>r. createMergedImages env u d = Resolved [r]"
  by (simp add: createMergedImages_def split: option.splits)

lemma merged_source:
  "createMergedImages env u d = Resolved rs \<Longrightarrow> r \<in> set rs \<Longrightarrow>
   source r = (if decode env u = None \<or> decode env d = None then ''original'' else ''canvas'')"
  by (auto simp: createMergedImages_def split: option.splits)

lemma example_decodes:
  "decode modern_browser subject_url = Some (800, 600)"
  "decode modern_browser garment_url = Some (1000, 1500)"
  "decode modern_browser corrupt_url = None"
  "decode legacy_browser thin_url = Some (800, 1)"
  "decode legacy_browser garment_url = Some (1000, 1500)"
  "decode legacy_browser subject_url = Some (800, 600)"
  "decode legacy_browser corrupt_url = None"
  by (simp_all add: modern_browser_def legacy_browser_def example_decode_def subject_url_def
      garment_url_def corrupt_url_def thin_url_def)

lemma example_rects:
  "face_rect 1000 1500 = (375, 120, 250, 300)"
  "crop_rect 800 600 = (200, 60, 400, 240)"
  "crop_rect 800 1 = (200, 0, 400, 0)"
  "crop_rect 800 (Suc 0) = (200, 0, 400, 0)"
  by (simp_all add: face_rect_spec crop_rect_spec spec_face_rect_def spec_crop_rect_def
      spec_percent_def)

lemma more_decodes:
  "decode modern_browser truncated_url = None"
  by (simp_all add: modern_browser_def example_decode_def subject_url_def
      garment_url_def corrupt_url_def thin_url_def truncated_url_def)

lemma example_fields:
  "has_roundRect modern_browser = True"
  "crop_draw_throws modern_browser dims r = False"
  "has_roundRect legacy_browser = False"
  "crop_draw_throws legacy_browser dims r = empty_source dims r"
  "fetch modern_browser = failing_fetch"
  "fetch legacy_browser = failing_fetch"
  "atob modern_browser = example_atob"
  "atob legacy_browser = example_atob"
  "readAsDataURL modern_browser = example_read"
  "env_backend modern_browser = None"
  by (simp_all add: modern_browser_def legacy_browser_def)

section \<open>The canvas merge: claims\<close>

text \<open>
  Claim C4. When both images decode, the canvas that \<^verbatim>\<open>createMergedImages\<close> encodes has
  exactly the garment image's decoded width and height, whatever the subject's size, and
  its first draw call paints the garment, unclipped, from (0, 0) over that full width and
  height.
\<close>

theorem compose_canvas_is_garment_size:
  assumes "decode env u = Some (uw, uh)" and "decode env d = Some (dw, dh)"
  shows "(\<exists>ops. createMergedImages env u d =
            Resolved [\<lparr>r_id = 1,
                       url = PngOf dw dh (DrawImage d None (0, 0, int dw, int dh) [] # ops),
                       quality = ''Canvas Merged'', source = ''canvas''\<rparr>])
         \<and> cv_width (dressImg_onload env u (uw, uh) d (dw, dh)) = dw
         \<and> cv_height (dressImg_onload env u (uw, uh) d (dw, dh)) = dh"
  using assms by (simp add: merged_decoded onload_size)

theorem compose_canvas_is_garment_size_witness:
  "(\<exists>ops. createMergedImages modern_browser subject_url garment_url =
      Resolved [\<lparr>r_id = 1,
                 url = PngOf 1000 1500 (DrawImage garment_url None (0, 0, 1000, 1500) [] # ops),
                 quality = ''Canvas Merged'', source = ''canvas''\<rparr>])
   \<and> cv_width (dressImg_onload modern_browser subject_url (800, 600) garment_url (1000, 1500)) = 1000
   \<and> cv_height (dressImg_onload modern_browser subject_url (800, 600) garment_url (1000, 1500)) = 1500"
  using compose_canvas_is_garment_size [OF example_decodes(1) example_decodes(2)] by simp

text \<open>
  Claim C6, as amended. When both images decode, the overlay is drawn into the destination
  rectangle of the specification (width 25 percent of the canvas width, height 120 percent
  of that width, horizontally centred, top edge at 8 percent of the canvas height), under
  a rounded-rectangle clip of radius 36 around that rectangle. When the cropped draw does
  not throw, it is drawn from the source rectangle of the specification (x 25 percent and
  width 50 percent of the subject width, y 10 percent and height 40 percent of the subject
  height); when the cropped draw throws, the whole subject image is drawn into the same
  destination instead and the source rectangle is not used. Every value is rounded to an
  integer: the source's rational products with \<^verbatim>\<open>Math.round\<close> agree with the integer
  formulas, and centred means that the left and right margins differ by at most one pixel.
\<close>

theorem compose_face_placement:
  assumes "decode env u = Some (uw, uh)" and "decode env d = Some (dw, dh)"
  shows "createMergedImages env u d =
     Resolved [\<lparr>r_id = 1,
       url = PngOf dw dh
         [DrawImage d None (0, 0, int dw, int dh) [],
          DrawImage u
            (if crop_draw_throws env (uw, uh) (spec_crop_rect (int uw) (int uh)) then None
             else Some (spec_crop_rect (int uw) (int uh)))
            (spec_face_rect (int dw) (int dh))
            [rounded_clip_36 (has_roundRect env) (spec_face_rect (int dw) (int dh))]],
       quality = ''Canvas Merged'', source = ''canvas''\<rparr>]
     \<and> (case spec_face_rect (int dw) (int dh) of
          (x, y, w, h) \<Rightarrow> 0 \<le> 2 * x + w - int dw \<and> 2 * x + w - int dw \<le> 1)"
proof -
  have "0 \<le> 2 * ((W - w + 1) div 2) + w - W \<and> 2 * ((W - w + 1) div 2) + w - W \<le> 1"
    for W w :: int
    by presburger
  then show ?thesis
    using assms by (simp add: merged_decoded face_rect_spec crop_rect_spec)
      (simp add: spec_face_rect_def Let_def)
qed

theorem compose_face_placement_witness:
  "createMergedImages modern_browser subject_url garment_url =
     Resolved [\<lparr>r_id = 1,
       url = PngOf 1000 1500
         [DrawImage garment_url None (0, 0, 1000, 1500) [],
          DrawImage subject_url (Some (200, 60, 400, 240)) (375, 120, 250, 300)
            [[RoundRect 375 120 250 300 36]]],
       quality = ''Canvas Merged'', source = ''canvas''\<rparr>]"
  using compose_face_placement [OF example_decodes(1) example_decodes(2)]
  by (simp add: spec_face_rect_def spec_crop_rect_def spec_percent_def rounded_clip_36_def
      example_fields)

text \<open>
  The claim as first stated has the overlay drawn from the source crop for every pair of
  decoded inputs. In a browser whose cropped draw throws on an empty source rectangle, a
  subject one pixel high has the crop (200, 0, 400, 0), the cropped draw throws, and the
  overlay is drawn from the whole image.
\<close>

theorem compose_crop_not_used_counterexample:
  "decode legacy_browser thin_url = Some (800, 1)
   \<and> decode legacy_browser garment_url = Some (1000, 1500)
   \<and> spec_crop_rect 800 1 = (200, 0, 400, 0)
   \<and> createMergedImages legacy_browser thin_url garment_url =
       Resolved [\<lparr>r_id = 1,
         url = PngOf 1000 1500
           [DrawImage garment_url None (0, 0, 1000, 1500) [],
            DrawImage thin_url None (375, 120, 250, 300)
              [[MoveTo 411 120, ArcTo 625 120 625 420 36, ArcTo 625 420 375 420 36,
                ArcTo 375 420 375 120 36, ArcTo 375 120 625 120 36, ClosePath]]],
         quality = ''Canvas Merged'', source = ''canvas''\<rparr>]
   \<and> createMergedImages legacy_browser thin_url garment_url \<noteq>
       Resolved [\<lparr>r_id = 1,
         url = PngOf 1000 1500
           [DrawImage garment_url None (0, 0, 1000, 1500) [],
            DrawImage thin_url (Some (200, 0, 400, 0)) (375, 120, 250, 300)
              [[MoveTo 411 120, ArcTo 625 120 625 420 36, ArcTo 625 420 375 420 36,
                ArcTo 375 420 375 120 36, ArcTo 375 120 625 120 36, ClosePath]]],
         quality = ''Canvas Merged'', source = ''canvas''\<rparr>]"
proof -
  have "spec_crop_rect 800 1 = (200, 0, 400, 0)"
    by (simp add: spec_crop_rect_def spec_percent_def)
  then show ?thesis
    by (simp add: merged_decoded [OF example_decodes(4) example_decodes(5)] example_rects
        rounded_clip_36_def example_fields empty_source_def example_decodes)
qed

text \<open>
  Claim C5, as amended. If the subject image fails to decode, the result is exactly the
  garment image tagged \<^verbatim>\<open>original\<close> (the garment is then never decoded). If the subject
  image decodes and the garment image fails to decode, the result is exactly the subject
  image tagged \<^verbatim>\<open>original\<close>.
\<close>

theorem compose_decode_failure:
  "(decode env u = None \<longrightarrow>
      createMergedImages env u d =
        Resolved [\<lparr>r_id = 1, url = Given d, quality = ''Original'', source = ''original''\<rparr>])
   \<and> (decode env u \<noteq> None \<and> decode env d = None \<longrightarrow>
      createMergedImages env u d =
        Resolved [\<lparr>r_id = 1, url = Given u, quality = ''Original'', source = ''original''\<rparr>])"
  by (auto simp: createMergedImages_def)

theorem compose_decode_failure_witness:
  "createMergedImages modern_browser corrupt_url garment_url =
     Resolved [\<lparr>r_id = 1, url = Given garment_url, quality = ''Original'', source = ''original''\<rparr>]
   \<and> createMergedImages modern_browser subject_url corrupt_url =
     Resolved [\<lparr>r_id = 1, url = Given subject_url, quality = ''Original'', source = ''original''\<rparr>]"
  using compose_decode_failure [of modern_browser corrupt_url garment_url]
    compose_decode_failure [of modern_browser subject_url corrupt_url]
  by (simp add: example_decodes)

text \<open>
  The claim as first stated (a garment that fails to decode always gives back the
  subject) fails when neither image decodes: the result is the garment.
\<close>

theorem compose_both_undecodable_counterexample:
  "decode modern_browser truncated_url = None
   \<and> createMergedImages modern_browser corrupt_url truncated_url =
       Resolved [\<lparr>r_id = 1, url = Given truncated_url, quality = ''Original'', source = ''original''\<rparr>]
   \<and> createMergedImages modern_browser corrupt_url truncated_url \<noteq>
       Resolved [\<lparr>r_id = 1, url = Given corrupt_url, quality = ''Original'', source = ''original''\<rparr>]"
proof -
  have "createMergedImages modern_browser corrupt_url truncated_url =
          Resolved [original_of truncated_url]"
    by (rule merged_no_subject) (rule example_decodes)
  moreover have "truncated_url \<noteq> corrupt_url"
    by (simp add: truncated_url_def corrupt_url_def)
  ultimately show ?thesis
    by (simp add: original_of_def more_decodes)
qed

text \<open>
  Claim C1, as amended. For every pair of inputs and every behaviour of the browser,
  \<^verbatim>\<open>createMergedImages\<close> resolves (it never rejects) with exactly one result: the other
  image, tagged \<^verbatim>\<open>original\<close>, when a decode fails; otherwise the encoded canvas tagged
  \<^verbatim>\<open>canvas\<close>, where a failure of the cropped draw degrades to a draw of the whole
  subject image into the same face rectangle, still under the rounded clip.
\<close>

theorem compose_total:
  "\<exists>r. createMergedImages env u d = Resolved [r]
     \<and> (decode env u = None \<longrightarrow>
          r = \<lparr>r_id = 1, url = Given d, quality = ''Original'', source = ''original''\<rparr>)
     \<and> (decode env u \<noteq> None \<and> decode env d = None \<longrightarrow>
          r = \<lparr>r_id = 1, url = Given u, quality = ''Original'', source = ''original''\<rparr>)
     \<and> (\<forall>uw uh dw dh. decode env u = Some (uw, uh) \<and> decode env d = Some (dw, dh) \<longrightarrow>
          r = \<lparr>r_id = 1,
               url = PngOf dw dh
                 [DrawImage d None (0, 0, int dw, int dh) [],
                  DrawImage u
                    (if crop_draw_throws env (uw, uh) (crop_rect uw uh) then None
                     else Some (crop_rect uw uh))
                    (face_rect dw dh)
                    [rounded_clip_36 (has_roundRect env) (face_rect dw dh)]],
               quality = ''Canvas Merged'', source = ''canvas''\<rparr>)"
proof (cases "decode env u")
  case None
  then show ?thesis by (simp add: createMergedImages_def)
next
  case (Some us)
  note u = this
  show ?thesis
  proof (cases "decode env d")
    case None
    with u show ?thesis by (simp add: createMergedImages_def)
  next
    case (Some ds)
    obtain uw uh dw dh where "us = (uw, uh)" "ds = (dw, dh)"
      by (cases us, cases ds) blast
    with u Some show ?thesis
      by (simp add: merged_decoded)
  qed
qed

theorem compose_total_witness:
  "\<exists>r. createMergedImages legacy_browser thin_url garment_url = Resolved [r]
     \<and> r = \<lparr>r_id = 1,
             url = PngOf 1000 1500
               [DrawImage garment_url None (0, 0, 1000, 1500) [],
                DrawImage thin_url None (375, 120, 250, 300)
                  [[MoveTo 411 120, ArcTo 625 120 625 420 36, ArcTo 625 420 375 420 36,
                    ArcTo 375 420 375 120 36, ArcTo 375 120 625 120 36, ClosePath]]],
             quality = ''Canvas Merged'', source = ''canvas''\<rparr>"
  using compose_total [of legacy_browser thin_url garment_url]
  by (simp add: example_decodes example_rects rounded_clip_36_def example_fields
      empty_source_def)

text \<open>
  The claim as first stated calls the degraded overlay unclipped. In a browser whose
  cropped draw throws on an empty source rectangle, a subject one pixel high gets the
  whole-image draw, and that draw is issued with the clip path in force.
\<close>

theorem compose_fallback_draw_is_clipped_counterexample:
  "crop_draw_throws legacy_browser (800, 1) (crop_rect 800 1)
   \<and> createMergedImages legacy_browser thin_url garment_url =
       Resolved [\<lparr>r_id = 1,
         url = PngOf 1000 1500
           [DrawImage garment_url None (0, 0, 1000, 1500) [],
            DrawImage thin_url None (375, 120, 250, 300)
              [[MoveTo 411 120, ArcTo 625 120 625 420 36, ArcTo 625 420 375 420 36,
                ArcTo 375 420 375 120 36, ArcTo 375 120 625 120 36, ClosePath]]],
         quality = ''Canvas Merged'', source = ''canvas''\<rparr>]
   \<and> op_clip (DrawImage thin_url None (375, 120, 250, 300)
        [[MoveTo 411 120, ArcTo 625 120 625 420 36, ArcTo 625 420 375 420 36,
          ArcTo 375 420 375 120 36, ArcTo 375 120 625 120 36, ClosePath]]) \<noteq> []"
  by (simp add: merged_decoded [OF example_decodes(4) example_decodes(5)] example_rects
      rounded_clip_36_def example_fields empty_source_def)

section \<open>Model registry: claims\<close>

lemma registry_ids:
  "map m_id (allModels OptionA) =
     [''canvas'', ''nanobanana'', ''deepai'', ''huggingface'', ''replicate'', ''stability'']"
  "map m_id (allModels OptionB) =
     [''canvas'', ''nanobanana'', ''deepai'', ''replicate'', ''stability'']"
  by (simp_all add: allModels_def aiModels_free_def aiModels_paid_def)

lemma find_model_id:
  "find (\<lambda>m. m_id m = sel) ms = Some m \<Longrightarrow> m_id m = sel \<and> m \<in> set ms"
  by (induction ms) (auto split: if_splits)

lemma find_model_none:
  "find (\<lambda>m. m_id m = sel) ms = None \<longleftrightarrow> sel \<notin> set (map m_id ms)"
  by (induction ms) auto

lemma default_model:
  "nth_opt (allModels OptionB) 0 =
     Some \<lparr>m_id = ''canvas'', m_name = ''Canvas Merge (Free)'', needsApi = False,
           m_description = ''Local canvas merging fallback''\<rparr>"
  by (simp add: allModels_def aiModels_free_def)

text \<open>
  Claim C8, as amended. In Option B, resolving any model id yields a descriptor of the
  registry: the entry with that id when there is one, and otherwise the first entry, the
  \<^verbatim>\<open>canvas\<close> entry, which needs no credential. In Option A, resolution is a plain
  \<^verbatim>\<open>find\<close>: it yields the entry with that id when there is one and is undefined exactly
  when the id is not in the registry.
\<close>

theorem resolve_model:
  "(\<exists>m. currentModelData OptionB sel = Some m \<and> m \<in> set (allModels OptionB)
        \<and> (if sel \<in> set (map m_id (allModels OptionB)) then m_id m = sel
            else m_id m = ''canvas'' \<and> needsApi m = False))
   \<and> (if sel \<in> set (map m_id (allModels OptionA))
       then \<exists>m. currentModelData OptionA sel = Some m \<and> m \<in> set (allModels OptionA) \<and> m_id m = sel
       else currentModelData OptionA sel = None)"
proof -
  have B: "\<exists>m. currentModelData OptionB sel = Some m \<and> m \<in> set (allModels OptionB)
        \<and> (if sel \<in> set (map m_id (allModels OptionB)) then m_id m = sel
            else m_id m = ''canvas'' \<and> needsApi m = False)"
  proof (cases "find (\<lambda>m. m_id m = sel) (allModels OptionB)")
    case None
    then have "sel \<notin> set (map m_id (allModels OptionB))"
      using find_model_none [of sel "allModels OptionB"] by blast
    moreover have "currentModelData OptionB sel = nth_opt (allModels OptionB) 0"
      using None by (simp add: currentModelData_def)
    moreover have "\<lparr>m_id = ''canvas'', m_name = ''Canvas Merge (Free)'', needsApi = False,
           m_description = ''Local canvas merging fallback''\<rparr> \<in> set (allModels OptionB)"
      by (simp add: allModels_def aiModels_free_def)
    ultimately show ?thesis
      by (simp only: default_model) simp
  next
    case (Some m)
    then have "m_id m = sel \<and> m \<in> set (allModels OptionB)"
      by (rule find_model_id)
    moreover have "currentModelData OptionB sel = Some m"
      using Some by (simp add: currentModelData_def)
    ultimately show ?thesis by auto
  qed
  have A: "if sel \<in> set (map m_id (allModels OptionA))
       then \<exists>m. currentModelData OptionA sel = Some m \<and> m \<in> set (allModels OptionA) \<and> m_id m = sel
       else currentModelData OptionA sel = None"
  proof (cases "find (\<lambda>m. m_id m = sel) (allModels OptionA)")
    case None
    then show ?thesis
      using find_model_none [of sel "allModels OptionA"] by (simp add: currentModelData_def)
  next
    case (Some m)
    then have "m_id m = sel \<and> m \<in> set (allModels OptionA)"
      by (rule find_model_id)
    then show ?thesis
      using Some by (auto simp: currentModelData_def)
  qed
  from A B show ?thesis by (rule_tac conjI)
qed

theorem resolve_model_witness:
  "(\<exists>m. currentModelData OptionB ''dall-e'' = Some m \<and> m \<in> set (allModels OptionB)
        \<and> m_id m = ''canvas'' \<and> needsApi m = False)
   \<and> currentModelData OptionA ''dall-e'' = None"
  using resolve_model [of "''dall-e''"] by (simp add: registry_ids)

text \<open>
  The claim as first stated (resolution never yields an absent descriptor) fails in
  Option A, where an id outside the registry resolves to nothing.
\<close>

theorem resolve_unrecognized_counterexample:
  "currentModelData OptionA ''dall-e'' = None"
  by (simp add: currentModelData_def allModels_def aiModels_free_def aiModels_paid_def)

section \<open>Image upload: claims\<close>

lemma validate_messages_nonempty: "validateImageFile v f = Some err \<Longrightarrow> err \<noteq> []"
  by (cases v) (auto simp: validateImageFile_def msg_not_image_def msg_too_large_def
      split: if_splits)

text \<open>
  Claim C9. \<^verbatim>\<open>validateImageFile\<close> checks the declared content type first (it must start
  with \<^verbatim>\<open>image/\<close>) and the size second (it must not exceed 6 MiB = 6291456 bytes; a file
  of exactly that size passes). When either check fails, \<^verbatim>\<open>handleImageUpload\<close> sets the
  validation message and does nothing else: no file read is started and the rest of the
  state (both photos, the uploading flag) is as it was.
\<close>

theorem image_upload_validation:
  "(take 6 (f_type f) \<noteq> ''image/'' \<longrightarrow> validateImageFile v f = Some (msg_not_image v))
   \<and> (take 6 (f_type f) = ''image/'' \<and> f_size f > 6291456 \<longrightarrow>
        validateImageFile v f = Some (msg_too_large v))
   \<and> (take 6 (f_type f) = ''image/'' \<and> f_size f \<le> 6291456 \<longrightarrow> validateImageFile v f = None)
   \<and> (\<forall>err. validateImageFile v f = Some err \<longrightarrow>
        handleImageUpload v env (Some f) kind s = (s\<lparr>errorMessage := err\<rparr>, []))"
proof -
  have "handleImageUpload v env (Some f) kind s = (s\<lparr>errorMessage := err\<rparr>, [])"
    if "validateImageFile v f = Some err" for err
    using that validate_messages_nonempty [OF that]
    by (simp add: handleImageUpload_def)
  then show ?thesis
    by (simp add: validateImageFile_def)
qed

theorem image_upload_validation_witness:
  "handleImageUpload OptionA modern_browser (Some text_file) ''user'' example_state =
     (example_state\<lparr>errorMessage := ''Please upload an image file (jpg, png, etc.)''\<rparr>, [])
   \<and> handleImageUpload OptionB modern_browser (Some huge_image) ''dress'' example_state =
     (example_state\<lparr>errorMessage := ''Image too large (max 6MB)''\<rparr>, [])
   \<and> validateImageFile OptionA small_image = None"
  using image_upload_validation [of text_file OptionA modern_browser "''user''" example_state]
    image_upload_validation [of huge_image OptionB modern_browser "''dress''" example_state]
    image_upload_validation [of small_image OptionA modern_browser "''user''" example_state]
  by (simp add: text_file_def huge_image_def small_image_def msg_not_image_def msg_too_large_def)

section \<open>The generate handler: claims\<close>

lemma nano_effects:
  "callNanoBanana v env k u d = (r, fx) \<Longrightarrow> composes fx = [] \<and> length fx \<le> 1"
  by (auto simp: callNanoBanana_def composes_def split: if_splits sum.splits)

lemma deepai_effects:
  "callDeepAI v env k u = (r, fx) \<Longrightarrow> composes fx = [] \<and> length fx \<le> 1"
  by (auto simp: callDeepAI_def composes_def split: if_splits sum.splits)

lemma remote_dispatch_effects:
  assumes "sel = ''nanobanana'' \<or> sel = ''deepai''"
    and "dispatch v env sel k u d = (r, fx)"
  shows "composes fx = [] \<and> length fx \<le> 1"
  using assms nano_effects [of v env k u d r fx] deepai_effects [of v env k u r fx]
  by (auto simp: dispatch_def split: if_splits)



lemma handleGenerate_no_photos:
  "\<not> truthy_str (userPhoto s) \<or> \<not> truthy_str (dressPhoto s) \<Longrightarrow>
   handleGenerate v env s = (s\<lparr>errorMessage := msg_upload_both v\<rparr>, [])"
  by (auto simp: handleGenerate_def)

lemma handleGenerate_needs_key:
  assumes "userPhoto s = Some u" "u \<noteq> []" "dressPhoto s = Some d" "d \<noteq> []"
    and "currentModelData v (selectedModel s) = Some m" and "needsApi m" and "apiKey s = []"
  shows "handleGenerate v env s = (s\<lparr>errorMessage := msg_api_key_required m\<rparr>, [])"
  using assms by (simp add: handleGenerate_def)

lemma handleGenerate_run:
  assumes "userPhoto s = Some u" "u \<noteq> []" "dressPhoto s = Some d" "d \<noteq> []"
    and "apiKey s \<noteq> [] \<or> (\<forall>m. currentModelData v (selectedModel s) = Some m \<longrightarrow> \<not> needsApi m)"
  shows "handleGenerate v env s = generate_run v env u d (s\<lparr>errorMessage := []\<rparr>)"
  using assms by (auto simp: handleGenerate_def Let_def split: option.splits)


lemma generate_run_rejected:
  assumes "dispatch v env (selectedModel s) (apiKey s) u d = (Rejected msg, fx)"
    and "createMergedImages env u d = Resolved [r]"
  shows "generate_run v env u d s =
           (generate_finally (s\<lparr>isGenerating := True, errorMessage := msg @ fallback_suffix v,
                                 generatedImages := [r], currentPage := Results\<rparr>),
            fx @ [Compose u d])"
  using assms by (simp add: generate_run_def generate_catch_def)

lemma finally_fields:
  "generatedImages (generate_finally s) = generatedImages s"
  "currentPage (generate_finally s) = currentPage s"
  "errorMessage (generate_finally s) = errorMessage s"
  by (simp_all add: generate_finally_def)

lemma merged_one:
  obtains r where "createMergedImages env u d = Resolved [r]"
    and "source r = (if decode env u = None \<or> decode env d = None then ''original'' else ''canvas'')"
proof -
  obtain r where r: "createMergedImages env u d = Resolved [r]"
    using merged_resolves by blast
  then have "source r = (if decode env u = None \<or> decode env d = None then ''original'' else ''canvas'')"
    using merged_source [of env u d "[r]" r] by simp
  with r that show thesis by blast
qed

text \<open>
  Claim C3. When the resolved descriptor needs a credential and the stored key is empty,
  \<^verbatim>\<open>handleGenerate\<close> does nothing to the outside world (no network request, no adapter, no
  canvas merge), and with both photos present (the precondition of generate) it leaves
  the state as it was except for the error message, which names the model whose key is
  missing.
\<close>

theorem generate_missing_credential:
  assumes "currentModelData v (selectedModel s) = Some m" and "needsApi m" and "apiKey s = []"
  shows "snd (handleGenerate v env s) = []
     \<and> (truthy_str (userPhoto s) \<and> truthy_str (dressPhoto s) \<longrightarrow>
          fst (handleGenerate v env s) = s\<lparr>errorMessage := ''API key required for '' @ m_name m\<rparr>)"
proof (cases "truthy_str (userPhoto s) \<and> truthy_str (dressPhoto s)")
  case False
  then show ?thesis by (auto simp: handleGenerate_no_photos)
next
  case True
  then obtain u d where "userPhoto s = Some u" "u \<noteq> []" "dressPhoto s = Some d" "d \<noteq> []"
    by (cases "userPhoto s"; cases "dressPhoto s") auto
  then show ?thesis
    using assms True by (simp add: handleGenerate_needs_key msg_api_key_required_def)
qed

theorem generate_missing_credential_witness:
  "handleGenerate OptionA modern_browser (example_state\<lparr>apiKey := []\<rparr>) =
     (example_state\<lparr>apiKey := [], errorMessage := ''API key required for Nano Banana API''\<rparr>, [])"
proof -
  have m: "currentModelData OptionA (selectedModel (example_state\<lparr>apiKey := []\<rparr>)) =
      Some \<lparr>m_id = ''nanobanana'', m_name = ''Nano Banana API'', needsApi = True,
            m_description = ''Advanced virtual try-on''\<rparr>"
    by (simp add: example_state_def currentModelData_def allModels_def aiModels_free_def)
  have p: "truthy_str (userPhoto (example_state\<lparr>apiKey := []\<rparr>))"
    "truthy_str (dressPhoto (example_state\<lparr>apiKey := []\<rparr>))"
    by (simp_all add: example_state_def subject_url_def garment_url_def)
  show ?thesis
    using generate_missing_credential [OF m, of modern_browser] p
    by (simp add: prod_eq_iff)
qed




lemma composes_append: "composes (xs @ ys) = composes xs @ composes ys"
  by (simp add: composes_def)

lemma fetches_append: "fetches (xs @ ys) = fetches xs @ fetches ys"
  by (simp add: fetches_def)

lemma fetches_length: "length (fetches xs) \<le> length xs"
  by (simp add: fetches_def)

lemma effects_of_compose:
  "composes [Compose u d] = [Compose u d]" "fetches [Compose u d] = []"
  by (simp_all add: composes_def fetches_def)

text \<open>The three ways an adapter fails, for each adapter: each rejects.\<close>

lemma deepai_failure_modes:
  assumes "k \<noteq> []"
  shows "fetch env (deepai_request k u) = Inl e \<Longrightarrow>
           callDeepAI v env k u = (Rejected e, [Fetch (deepai_request k u)])"
    and "fetch env (deepai_request k u) = Inr res \<Longrightarrow> \<not> res_ok res \<Longrightarrow>
           callDeepAI v env k u =
             (Rejected (''DeepAI failed ('' @ string_of_nat (res_status res) @ '')''),
              [Fetch (deepai_request k u)])"
    and "fetch env (deepai_request k u) = Inr res \<Longrightarrow> res_ok res \<Longrightarrow>
         res_json res = Inr (JObj kvs) \<Longrightarrow> map_of kvs ''output_url'' = None \<Longrightarrow>
           callDeepAI v env k u =
             (Rejected ''DeepAI returned no image'', [Fetch (deepai_request k u)])"
  using assms by (simp_all add: callDeepAI_def deepai_parse_def get_prop_def)

lemma nano_failure_modes:
  assumes "k \<noteq> []" and "base64ToBlob env u = Inr ub" and "base64ToBlob env d = Inr db"
  shows "fetch env (nano_request k ub db) = Inl e \<Longrightarrow>
           callNanoBanana v env k u d = (Rejected e, [Fetch (nano_request k ub db)])"
    and "fetch env (nano_request k ub db) = Inr res \<Longrightarrow> \<not> res_ok res \<Longrightarrow>
           callNanoBanana v env k u d =
             (Rejected (nano_status_failed v (res_status res)), [Fetch (nano_request k ub db)])"
    and "fetch env (nano_request k ub db) = Inr res \<Longrightarrow> res_ok res \<Longrightarrow>
         res_json res = Inr (JObj kvs) \<Longrightarrow> map_of kvs ''output_url'' = None \<Longrightarrow>
         map_of kvs ''image_url'' = None \<Longrightarrow>
           callNanoBanana v env k u d = (Rejected (nano_no_url v), [Fetch (nano_request k ub db)])"
  using assms by (simp_all add: callNanoBanana_def nano_parse_def get_prop_def or_else_def)

lemma remote_failure_fallback:
  assumes sel: "selectedModel s = ''nanobanana'' \<or> selectedModel s = ''deepai''"
    and photos: "userPhoto s = Some u" "u \<noteq> []" "dressPhoto s = Some d" "d \<noteq> []"
    and key: "apiKey s \<noteq> []"
    and rej: "dispatch v env (selectedModel s) (apiKey s) u d = (Rejected msg, fx)"
    and r: "createMergedImages env u d = Resolved [r]"
  shows "handleGenerate v env s =
           (generate_finally (s\<lparr>isGenerating := True, errorMessage := msg @ fallback_suffix v,
                                 generatedImages := [r], currentPage := Results\<rparr>),
            fx @ [Compose u d])"
proof -
  have "handleGenerate v env s = generate_run v env u d (s\<lparr>errorMessage := []\<rparr>)"
    using photos key by (intro handleGenerate_run) auto
  moreover have "generate_run v env u d (s\<lparr>errorMessage := []\<rparr>) =
      (generate_finally (s\<lparr>errorMessage := [], isGenerating := True,
          errorMessage := msg @ fallback_suffix v, generatedImages := [r], currentPage := Results\<rparr>),
       fx @ [Compose u d])"
    by (rule generate_run_rejected) (simp_all add: rej r)
  ultimately show ?thesis by simp
qed

text \<open>
  Claim C2, as amended. When the selected model is one of the two remote back ends,
  generate's preconditions hold and the adapter call fails (the dispatch rejects with a
  message), \<^verbatim>\<open>handleGenerate\<close> runs the canvas merge exactly once, after the adapter's at
  most one network request, shows the merge's single result, and puts the adapter's error
  message, followed by the fall-back notice, in the error message of the state; nothing is
  thrown. The result is tagged \<^verbatim>\<open>canvas\<close> when both images decode and \<^verbatim>\<open>original\<close> when
  one does not.
\<close>

theorem generate_remote_failure_fallback:
  assumes "selectedModel s = ''nanobanana'' \<or> selectedModel s = ''deepai''"
    and "userPhoto s = Some u" and "u \<noteq> []" and "dressPhoto s = Some d" and "d \<noteq> []"
    and "apiKey s \<noteq> []"
    and "dispatch v env (selectedModel s) (apiKey s) u d = (Rejected msg, fx)"
  shows "\<exists>r. createMergedImages env u d = Resolved [r]
        \<and> snd (handleGenerate v env s) = fx @ [Compose u d]
        \<and> composes (snd (handleGenerate v env s)) = [Compose u d]
        \<and> length (fetches (snd (handleGenerate v env s))) \<le> 1
        \<and> generatedImages (fst (handleGenerate v env s)) = [r]
        \<and> currentPage (fst (handleGenerate v env s)) = Results
        \<and> errorMessage (fst (handleGenerate v env s)) = msg @ fallback_suffix v
        \<and> source r = (if decode env u = None \<or> decode env d = None
                      then ''original'' else ''canvas'')"
proof -
  obtain r where r: "createMergedImages env u d = Resolved [r]"
    and src: "source r = (if decode env u = None \<or> decode env d = None then ''original'' else ''canvas'')"
    by (rule merged_one)
  have fx: "composes fx = [] \<and> length fx \<le> 1"
    using assms(1,7) by (rule remote_dispatch_effects)
  then have "length (fetches fx) \<le> 1"
    using fetches_length [of fx] by simp
  moreover have "handleGenerate v env s =
           (generate_finally (s\<lparr>isGenerating := True, errorMessage := msg @ fallback_suffix v,
                                 generatedImages := [r], currentPage := Results\<rparr>),
            fx @ [Compose u d])"
    using assms r by (rule remote_failure_fallback)
  ultimately show ?thesis
    using r src fx
    by (simp add: finally_fields composes_append fetches_append effects_of_compose)
qed

lemma example_blobs:
  "base64ToBlob modern_browser subject_url = Inr (Blob ''subject'' ''image/png'')"
  "base64ToBlob modern_browser garment_url = Inr (Blob ''garment'' ''image/jpeg'')"
  "base64ToBlob modern_browser corrupt_url = Inr (Blob ''not an image'' ''image/png'')"
  by (simp_all add: base64ToBlob_def subject_url_def garment_url_def corrupt_url_def
      example_fields example_atob_def)

lemma string_of_503: "string_of_nat 503 = ''503''"
  by code_simp

lemma example_nano_dispatch:
  "dispatch OptionA modern_browser ''nanobanana'' ''key-123'' subject_url garment_url =
     (Rejected ''NanoBanana API failed (503)'',
      [Fetch (nano_request ''key-123'' (Blob ''subject'' ''image/png'') (Blob ''garment'' ''image/jpeg''))])"
  "dispatch OptionA modern_browser ''nanobanana'' ''key-123'' subject_url corrupt_url =
     (Rejected ''NanoBanana API failed (503)'',
      [Fetch (nano_request ''key-123'' (Blob ''subject'' ''image/png'') (Blob ''not an image'' ''image/png''))])"
  by (simp_all add: dispatch_def callNanoBanana_def example_blobs example_fields failing_fetch_def
      nano_status_failed_def string_of_503)

lemma example_state_fields:
  "selectedModel example_state = ''nanobanana''"
  "apiKey example_state = ''key-123''"
  "userPhoto example_state = Some subject_url"
  "dressPhoto example_state = Some garment_url"
  "authEmail example_state = ''a@b.com''"
  "authPassword example_state = ''short''"
  "mounted example_state = True"
  by (simp_all add: example_state_def)

lemma example_urls_nonempty: "subject_url \<noteq> []" "garment_url \<noteq> []" "corrupt_url \<noteq> []"
  by (simp_all add: subject_url_def garment_url_def corrupt_url_def)

theorem generate_remote_failure_fallback_witness:
  "snd (handleGenerate OptionA modern_browser example_state) =
     [Fetch (nano_request ''key-123'' (Blob ''subject'' ''image/png'') (Blob ''garment'' ''image/jpeg'')),
      Compose subject_url garment_url]
   \<and> map source (generatedImages (fst (handleGenerate OptionA modern_browser example_state))) = [''canvas'']
   \<and> currentPage (fst (handleGenerate OptionA modern_browser example_state)) = Results
   \<and> errorMessage (fst (handleGenerate OptionA modern_browser example_state)) =
       ''NanoBanana API failed (503)'' @ fallback_suffix OptionA"
proof -
  have d: "dispatch OptionA modern_browser (selectedModel example_state) (apiKey example_state)
      subject_url garment_url =
     (Rejected ''NanoBanana API failed (503)'',
      [Fetch (nano_request ''key-123'' (Blob ''subject'' ''image/png'') (Blob ''garment'' ''image/jpeg''))])"
    by (simp only: example_state_fields example_nano_dispatch)
  have s: "selectedModel example_state = ''nanobanana'' \<or> selectedModel example_state = ''deepai''"
    by (simp add: example_state_fields)
  have k: "apiKey example_state \<noteq> []"
    by (simp add: example_state_fields)
  show ?thesis
    using generate_remote_failure_fallback [OF s example_state_fields(3) example_urls_nonempty(1)
        example_state_fields(4) example_urls_nonempty(2) k d]
    by (auto simp: example_decodes)
qed

text \<open>
  The claim as first stated tags the fall-back result \<^verbatim>\<open>canvas\<close> in every case. With a
  garment upload that does not decode and a provider that answers 503, the adapter fails
  and the fall-back result is the subject image tagged \<^verbatim>\<open>original\<close>.
\<close>

theorem generate_fallback_original_counterexample:
  "dispatch OptionA modern_browser ''nanobanana'' ''key-123'' subject_url corrupt_url =
     (Rejected ''NanoBanana API failed (503)'',
      [Fetch (nano_request ''key-123'' (Blob ''subject'' ''image/png'') (Blob ''not an image'' ''image/png''))])
   \<and> generatedImages (fst (handleGenerate OptionA modern_browser
         (example_state\<lparr>dressPhoto := Some corrupt_url\<rparr>))) =
       [\<lparr>r_id = 1, url = Given subject_url, quality = ''Original'', source = ''original''\<rparr>]"
proof -
  let ?s = "example_state\<lparr>dressPhoto := Some corrupt_url\<rparr>"
  have d: "dispatch OptionA modern_browser (selectedModel ?s) (apiKey ?s) subject_url corrupt_url =
     (Rejected ''NanoBanana API failed (503)'',
      [Fetch (nano_request ''key-123'' (Blob ''subject'' ''image/png'') (Blob ''not an image'' ''image/png''))])"
    by (simp add: example_state_fields example_nano_dispatch)
  have r: "createMergedImages modern_browser subject_url corrupt_url = Resolved [original_of subject_url]"
    by (rule merged_no_garment) (rule example_decodes)+
  have "handleGenerate OptionA modern_browser ?s =
           (generate_finally (?s\<lparr>isGenerating := True,
               errorMessage := ''NanoBanana API failed (503)'' @ fallback_suffix OptionA,
               generatedImages := [original_of subject_url],
               currentPage := Results\<rparr>),
            [Fetch (nano_request ''key-123'' (Blob ''subject'' ''image/png'') (Blob ''not an image'' ''image/png''))]
              @ [Compose subject_url corrupt_url])"
    by (rule remote_failure_fallback [OF _ _ _ _ _ _ d r])
      (simp_all add: example_state_fields example_urls_nonempty)
  then show ?thesis
    by (simp add: finally_fields original_of_def example_nano_dispatch)
qed

section \<open>Login: claims\<close>

lemma login_empty_password:
  "isValidEmail (authEmail s) \<Longrightarrow> authPassword s = [] \<Longrightarrow>
   handleLogin v env s = (s\<lparr>authError := JStr (msg_enter_password v)\<rparr>, [])"
  by (simp add: handleLogin_def)

lemma login_sends:
  "isValidEmail (authEmail s) \<Longrightarrow> authPassword s \<noteq> [] \<Longrightarrow>
   snd (handleLogin v env s) = [Fetch (login_request env (authEmail s) (authPassword s))]"
  by (simp add: handleLogin_def Let_def split: sum.splits)

lemma login_status_failure:
  assumes "isValidEmail (authEmail s)" and "authPassword s \<noteq> []"
    and "fetch env (login_request env (authEmail s) (authPassword s)) = Inr res"
    and "\<not> res_ok res" and "res_json res = Inl e"
  shows "authError (fst (handleLogin v env s)) = JStr (msg_login_status v (res_status res))"
  using assms
  by (simp add: handleLogin_def Let_def login_finally_def opt_prop_def get_prop_def or_else_def)

lemma example_email_valid: "isValidEmail ''a@b.com''"
  by (simp add: isValidEmail_def plain_char_def is_space_def white_space_def utf8_len_def)

lemma nbsp_email_invalid: "\<not> isValidEmail nbsp_email"
  by (simp add: nbsp_email_def isValidEmail_def plain_char_def is_space_def white_space_def
      utf8_len_def)

lemma login_invalid_email:
  "\<not> isValidEmail (authEmail s) \<Longrightarrow>
   handleLogin v env s = (s\<lparr>authError := JStr (msg_enter_email v)\<rparr>, [])"
  by (simp add: handleLogin_def)

lemma example_login_request:
  "login_request modern_browser ''a@b.com'' ''short'' =
     Request ''https://stitchpix-backend-1.onrender.com/api/auth/login''
       [(''Content-Type'', ''application/json'')]
       (JsonBody (JObj [(''email'', JStr ''a@b.com''), (''password'', JStr ''short'')]))"
  by (simp add: login_request_def STITCHPIX_BACKEND_def default_backend_def example_fields
      trim_def is_space_def white_space_def utf8_len_def)

text \<open>
  Claim C7, as amended. With a valid email, \<^verbatim>\<open>handleLogin\<close> checks only that the password
  is not empty: an empty password fails on the client with the enter-your-password message
  and no request; any non-empty password, whatever its length, is sent to the login
  end point in exactly one request. (An email that is not valid fails on the client before
  the password is looked at.)
\<close>

theorem login_password_check:
  "(isValidEmail (authEmail s) \<and> authPassword s = [] \<longrightarrow>
      handleLogin v env s = (s\<lparr>authError := JStr (msg_enter_password v)\<rparr>, []))
   \<and> (isValidEmail (authEmail s) \<and> authPassword s \<noteq> [] \<longrightarrow>
      snd (handleLogin v env s) =
        [Fetch (login_request env (authEmail s) (authPassword s))])
   \<and> (\<not> isValidEmail (authEmail s) \<longrightarrow>
      handleLogin v env s = (s\<lparr>authError := JStr (msg_enter_email v)\<rparr>, []))"
  by (simp add: login_empty_password login_sends login_invalid_email)

theorem login_password_check_witness:
  "handleLogin OptionA modern_browser (example_state\<lparr>authPassword := []\<rparr>) =
     (example_state\<lparr>authPassword := [], authError := JStr ''Please enter your password''\<rparr>, [])
   \<and> snd (handleLogin OptionA modern_browser example_state) =
       [Fetch (login_request modern_browser ''a@b.com'' ''short'')]
   \<and> handleLogin OptionB modern_browser (example_state\<lparr>authEmail := nbsp_email\<rparr>) =
     (example_state\<lparr>authEmail := nbsp_email, authError := JStr ''Enter valid email''\<rparr>, [])"
proof -
  have e1: "isValidEmail (authEmail (example_state\<lparr>authPassword := []\<rparr>))"
    and e2: "isValidEmail (authEmail example_state)"
    and e3: "\<not> isValidEmail (authEmail (example_state\<lparr>authEmail := nbsp_email\<rparr>))"
    by (simp_all add: example_state_fields example_email_valid nbsp_email_invalid)
  show ?thesis
    using login_password_check [of "example_state\<lparr>authPassword := []\<rparr>" OptionA modern_browser]
      login_password_check [of example_state OptionA modern_browser]
      login_password_check [of "example_state\<lparr>authEmail := nbsp_email\<rparr>" OptionB modern_browser]
      e1 e2 e3
    by (simp add: example_state_fields msg_enter_password_def msg_enter_email_def)
qed

text \<open>
  The claim as first stated expects \<^verbatim>\<open>a@b.com\<close> with the five-character password
  \<^verbatim>\<open>short\<close> to fail on the client. In both variants the request is sent; against a server
  that answers 503 the error shown is the server failure, not a password-length message.
\<close>

theorem login_short_password_counterexample:
  "isValidEmail ''a@b.com'' \<and> length ''short'' = 5
   \<and> snd (handleLogin OptionA modern_browser example_state) =
       [Fetch (Request ''https://stitchpix-backend-1.onrender.com/api/auth/login''
          [(''Content-Type'', ''application/json'')]
          (JsonBody (JObj [(''email'', JStr ''a@b.com''), (''password'', JStr ''short'')])))]
   \<and> snd (handleLogin OptionB modern_browser example_state) =
       [Fetch (Request ''https://stitchpix-backend-1.onrender.com/api/auth/login''
          [(''Content-Type'', ''application/json'')]
          (JsonBody (JObj [(''email'', JStr ''a@b.com''), (''password'', JStr ''short'')])))]
   \<and> authError (fst (handleLogin OptionA modern_browser example_state)) =
       JStr ''Login failed (status 503)''"
proof -
  have e: "isValidEmail (authEmail example_state)"
    and p: "authPassword example_state \<noteq> []"
    by (simp_all add: example_state_fields example_email_valid)
  have a: "snd (handleLogin v modern_browser example_state) =
       [Fetch (login_request modern_browser ''a@b.com'' ''short'')]" for v
    using login_sends [OF e p, of v modern_browser] by (simp add: example_state_fields)
  have "fetch modern_browser (login_request modern_browser (authEmail example_state)
          (authPassword example_state)) =
        Inr \<lparr>res_ok = False, res_status = 503, res_json = Inl ''Unexpected end of JSON input''\<rparr>"
    by (simp add: example_fields failing_fetch_def)
  then have "authError (fst (handleLogin OptionA modern_browser example_state)) =
      JStr (msg_login_status OptionA 503)"
    using login_status_failure [OF e p, of modern_browser _ _ OptionA] by simp
  then show ?thesis
    using a [of OptionA] a [of OptionB]
    by (simp add: example_email_valid example_login_request
        msg_login_status_def string_of_503)
qed

end
